theory Spec2Isabelle
  imports Main "HOL-Library.Multiset"
begin

section \<open>Python values, exceptions and syntax trees\<close>

text \<open>
  The exceptions the two components can meet. Each carries the text that
  \<open>str(err)\<close> yields. All of them derive from \<open>Exception\<close>, so every one is
  caught by an \<open>except Exception\<close> clause.
\<close>

datatype exc =
    ValueError string
  | AttributeError string
  | TypeError string
  | SyntaxError string
  | IOError string
  | OSError string
  | PyRevitException string

fun exc_str :: "exc \<Rightarrow> string" where
  "exc_str (ValueError m) = m"
| "exc_str (AttributeError m) = m"
| "exc_str (TypeError m) = m"
| "exc_str (SyntaxError m) = m"
| "exc_str (IOError m) = m"
| "exc_str (OSError m) = m"
| "exc_str (PyRevitException m) = m"

fun is_PyRevitException :: "exc \<Rightarrow> bool" where
  "is_PyRevitException (PyRevitException m) = True"
| "is_PyRevitException e = False"

text \<open>
  A numeric literal is an integer or a float; the float keeps its source
  text, which is all that the extractor does with it.
\<close>

datatype num_lit = IntLit int | FloatLit string

text \<open>Expression nodes of the syntax tree. Only \<open>Name\<close> has the field \<open>id\<close>.\<close>

datatype expr =
    Num num_lit
  | Str string
  | Name string
  | Tuple "expr list"
  | List "expr list"
  | SetE "expr list"
  | Call expr "expr list"
  | Attribute expr string
  | Subscript expr expr
  | BinOp expr string expr
  | UnaryOp string expr

text \<open>
  Statement nodes. \<open>Assign\<close> has the fields \<open>targets\<close> and \<open>value\<close>;
  \<open>Delete\<close> has the field \<open>targets\<close> and no field \<open>value\<close>;
  \<open>AugAssign\<close> has \<open>target\<close> and \<open>value\<close>; no other statement has \<open>targets\<close>.
\<close>

datatype stmt =
    Assign "expr list" expr
  | Delete "expr list"
  | AugAssign expr string expr
  | ExprStmt expr
  | Return expr
  | Pass
  | FunctionDef string "stmt list"
  | ClassDef string "stmt list"
  | If expr "stmt list" "stmt list"
  | For expr expr "stmt list" "stmt list"
  | While expr "stmt list" "stmt list"

text \<open>The values a literal evaluates to; \<open>VNone\<close> is Python's \<open>None\<close>.\<close>

datatype pyval =
    VNone
  | VBool bool
  | VNum num_lit
  | VStr string
  | VTuple "pyval list"
  | VList "pyval list"
  | VSet "pyval list"

subsection \<open>Attribute access on nodes\<close>

text \<open>\<open>hasattr(child, 'targets')\<close> and \<open>child.targets\<close>.\<close>

fun stmt_targets :: "stmt \<Rightarrow> expr list option" where
  "stmt_targets (Assign ts v) = Some ts"
| "stmt_targets (Delete ts) = Some ts"
| "stmt_targets s = None"

text \<open>\<open>child.value\<close>: an \<open>AttributeError\<close> on a node without that field.\<close>

fun stmt_value :: "stmt \<Rightarrow> exc + expr" where
  "stmt_value (Assign ts v) = Inr v"
| "stmt_value (AugAssign t oper v) = Inr v"
| "stmt_value (ExprStmt v) = Inr v"
| "stmt_value (Return v) = Inr v"
| "stmt_value s = Inl (AttributeError ''object has no attribute value'')"

text \<open>\<open>hasattr(target, 'id')\<close> and \<open>target.id\<close>.\<close>

fun expr_id :: "expr \<Rightarrow> string option" where
  "expr_id (Name n) = Some n"
| "expr_id e = None"

subsection \<open>Literal evaluation\<close>

fun sequence :: "(exc + 'a) list \<Rightarrow> exc + 'a list" where
  "sequence [] = Inr []"
| "sequence (r # rs) =
     (case r of
        Inl e \<Rightarrow> Inl e
      | Inr v \<Rightarrow> (case sequence rs of Inl e \<Rightarrow> Inl e | Inr vs \<Rightarrow> Inr (v # vs)))"

text \<open>
  Modelled from the spec: \<open>ast.literal_eval\<close> is the standard library's and not
  part of the source. It accepts numeric literals, string literals, the
  boolean and null literals, and lists, tuples and sets of literals; it rejects
  every call, name lookup, attribute access, subscript and binary or unary
  operation with a \<open>ValueError\<close>.
\<close>

fun literal_eval :: "expr \<Rightarrow> exc + pyval" where
  "literal_eval (Num n) = Inr (VNum n)"
| "literal_eval (Str s) = Inr (VStr s)"
| "literal_eval (Name n) =
     (if n = ''None'' then Inr VNone
      else if n = ''True'' then Inr (VBool True)
      else if n = ''False'' then Inr (VBool False)
      else Inl (ValueError ''malformed string''))"
| "literal_eval (Tuple es) =
     (case sequence (map literal_eval es) of Inl e \<Rightarrow> Inl e | Inr vs \<Rightarrow> Inr (VTuple vs))"
| "literal_eval (List es) =
     (case sequence (map literal_eval es) of Inl e \<Rightarrow> Inl e | Inr vs \<Rightarrow> Inr (VList vs))"
| "literal_eval (SetE es) =
     (case sequence (map literal_eval es) of Inl e \<Rightarrow> Inl e | Inr vs \<Rightarrow> Inr (VSet (remdups vs)))"
| "literal_eval e = Inl (ValueError ''malformed string'')"

section \<open>The script metadata extractor\<close>

record ScriptFileParser =
  file_addr :: string
  ast_tree :: "stmt list"

text \<open>
  The platform under \<open>ScriptFileParser.__init__\<close>: opening a path, reading an
  open file, and parsing source text into the statements of a module.
\<close>

record 'h script_io =
  open_file :: "string \<Rightarrow> exc + 'h"
  read_file :: "'h \<Rightarrow> exc + string"
  ast_parse :: "string \<Rightarrow> exc + stmt list"

definition init_error :: "string \<Rightarrow> exc \<Rightarrow> exc" where
  "init_error file_address err =
     PyRevitException (''Error parsing script file: '' @ file_address @ '' | '' @ exc_str err)"

text \<open>
  \<open>__init__\<close>: the body of the \<open>try\<close> opens, reads and parses; whichever step
  raises, the handler raises \<open>PyRevitException\<close> and no instance is returned.
\<close>

definition ScriptFileParser_init ::
    "'h script_io \<Rightarrow> string \<Rightarrow> exc + ScriptFileParser" where
  "ScriptFileParser_init io file_address =
     (case open_file io file_address of
        Inl err \<Rightarrow> Inl (init_error file_address err)
      | Inr f \<Rightarrow>
          (case read_file io f of
             Inl err \<Rightarrow> Inl (init_error file_address err)
           | Inr text \<Rightarrow>
               (case ast_parse io text of
                  Inl err \<Rightarrow> Inl (init_error file_address err)
                | Inr tree \<Rightarrow> Inr \<lparr>file_addr = file_address, ast_tree = tree\<rparr>)))"

text \<open>
  The inner loop of \<open>extract_param\<close> over \<open>child.targets\<close>: \<open>None\<close> when the
  loop ends without a match, otherwise the outcome of
  \<open>return ast.literal_eval(child.value)\<close> at the first matching target.
\<close>

fun scan_targets :: "stmt \<Rightarrow> string \<Rightarrow> expr list \<Rightarrow> (exc + pyval) option" where
  "scan_targets child param_name [] = None"
| "scan_targets child param_name (target # rest) =
     (if expr_id target = Some param_name
      then Some (case stmt_value child of Inl err \<Rightarrow> Inl err | Inr v \<Rightarrow> literal_eval v)
      else scan_targets child param_name rest)"

text \<open>
  The outer loop over \<open>ast.iter_child_nodes(self.ast_tree)\<close>, the statements
  of the module body in document order.
\<close>

fun scan_children :: "string \<Rightarrow> stmt list \<Rightarrow> (exc + pyval) option" where
  "scan_children param_name [] = None"
| "scan_children param_name (child # rest) =
     (case stmt_targets child of
        None \<Rightarrow> scan_children param_name rest
      | Some targets \<Rightarrow>
          (case scan_targets child param_name targets of
             Some outcome \<Rightarrow> Some outcome
           | None \<Rightarrow> scan_children param_name rest))"

definition param_error :: "string \<Rightarrow> string \<Rightarrow> exc \<Rightarrow> exc" where
  "param_error param_name file_address err =
     PyRevitException (''Error parsing parameter: '' @ param_name @
       '' in script file for : '' @ file_address @ '' | '' @ exc_str err)"

definition extract_param :: "ScriptFileParser \<Rightarrow> string \<Rightarrow> exc + pyval" where
  "extract_param self param_name =
     (case scan_children param_name (ast_tree self) of
        Some (Inl err) \<Rightarrow> Inl (param_error param_name (file_addr self) err)
      | Some (Inr v) \<Rightarrow> Inr v
      | None \<Rightarrow> Inr VNone)"

text \<open>
  A top-level statement names \<open>x\<close> when it has a \<open>targets\<close> field and one of
  the targets is the simple identifier \<open>x\<close>: an assignment \<open>x = ...\<close>
  (also \<open>a = x = ...\<close>) or a \<open>del x\<close> statement.
\<close>

definition names_target :: "stmt \<Rightarrow> string \<Rightarrow> bool" where
  "names_target s x =
     (case stmt_targets s of None \<Rightarrow> False | Some ts \<Rightarrow> Some x \<in> set (map expr_id ts))"

text \<open>The statements that hold nested bodies.\<close>

fun compound :: "stmt \<Rightarrow> bool" where
  "compound (FunctionDef f body) = True"
| "compound (ClassDef c body) = True"
| "compound (If c body orelse) = True"
| "compound (For t it body orelse) = True"
| "compound (While c body orelse) = True"
| "compound s = False"

section \<open>The directory fingerprinter\<close>

subsection \<open>The directory tree as the walk sees it\<close>

text \<open>
  A node of the tree carries what the calls of the fingerprinter observe:
  its base name, whether it is a symbolic link, the outcome of
  \<open>os.path.getmtime\<close> on it (a float of type \<open>'t\<close>, or the \<open>OSError\<close> raised),
  and for a directory the outcome of listing it: its entries, or (\<open>BadDir\<close>)
  the error that \<open>os.listdir\<close> raises.
\<close>

datatype 't node =
    File string "exc + 't"
  | Dir string bool "exc + 't" "'t node list"
  | BadDir string bool "exc + 't" exc

fun node_name :: "'t node \<Rightarrow> string" where
  "node_name (File n m) = n"
| "node_name (Dir n l m entries) = n"
| "node_name (BadDir n l m e) = n"

fun node_mtime :: "'t node \<Rightarrow> exc + 't" where
  "node_mtime (File n m) = m"
| "node_mtime (Dir n l m entries) = m"
| "node_mtime (BadDir n l m e) = m"

text \<open>\<open>os.path.isdir\<close> and \<open>os.path.islink\<close>.\<close>

fun isdir :: "'t node \<Rightarrow> bool" where
  "isdir (File n m) = False"
| "isdir (Dir n l m entries) = True"
| "isdir (BadDir n l m e) = True"

fun islink :: "'t node \<Rightarrow> bool" where
  "islink (File n m) = False"
| "islink (Dir n l m entries) = l"
| "islink (BadDir n l m e) = l"

text \<open>
  One triple \<open>(root, dirs, files)\<close> that \<open>os.walk\<close> yields. The root is kept
  as its base name with the outcome of \<open>getmtime(root)\<close>, each file as its
  name with the outcome of \<open>getmtime(join(root, filename))\<close>.
\<close>

record 't visit =
  root :: string
  root_mtime :: "exc + 't"
  dirs :: "string list"
  files :: "(string \<times> (exc + 't)) list"

text \<open>
  \<open>os.walk(top)\<close> with its defaults (\<open>topdown=True\<close>, \<open>onerror=None\<close>,
  \<open>followlinks=False\<close>), as the standard library defines it: a failing
  \<open>listdir(top)\<close> is swallowed and nothing is yielded for \<open>top\<close>; otherwise the
  names are split by \<open>isdir\<close>, the triple is yielded, and each name of \<open>dirs\<close>
  that is no symbolic link is walked in turn.
\<close>

fun os_walk :: "'t node \<Rightarrow> 't visit list" where
  "os_walk (File n m) = []"
| "os_walk (BadDir n l m e) = []"
| "os_walk (Dir n l m entries) =
     \<lparr>root = n, root_mtime = m,
      dirs = map node_name (filter isdir entries),
      files = map (\<lambda>f. (node_name f, node_mtime f)) (filter (\<lambda>f. \<not> isdir f) entries)\<rparr>
     # concat (map os_walk (filter (\<lambda>d. isdir d \<and> \<not> islink d) entries))"

subsection \<open>Numbers and library calls\<close>

text \<open>
  \<open>mtime_sum\<close> starts as the integer \<open>0\<close> and becomes a float with the first
  addition (\<open>0 + m\<close> is \<open>m\<close>); later additions are float additions \<open>fadd\<close>.
  \<open>str\<close> of the integer is \<open>0\<close>; \<open>str\<close> of a float is the library's \<open>fstr\<close>.
\<close>

datatype 't pynum = IntZero | FloatVal 't

fun py_add :: "('t \<Rightarrow> 't \<Rightarrow> 't) \<Rightarrow> 't pynum \<Rightarrow> 't \<Rightarrow> 't pynum" where
  "py_add fadd IntZero m = FloatVal m"
| "py_add fadd (FloatVal s) m = FloatVal (fadd s m)"

fun py_str :: "('t \<Rightarrow> string) \<Rightarrow> 't pynum \<Rightarrow> string" where
  "py_str fstr IntZero = ''0''"
| "py_str fstr (FloatVal s) = fstr s"

datatype re_flag = IGNORECASE

text \<open>
  The regular-expression engine is a parameter: \<open>search pat s flags\<close> says
  whether \<open>re.search(pat, s, flags=flags)\<close> finds a match, for a pattern
  \<open>pat\<close> that compiles.
\<close>

type_synonym 'p re_search = "'p \<Rightarrow> string \<Rightarrow> re_flag list \<Rightarrow> bool"

text \<open>
  \<open>get_str_hash\<close>; the library's \<open>hashlib.md5(...).hexdigest()\<close> is the
  parameter \<open>md5_hexdigest\<close>.
\<close>

definition get_str_hash :: "(string \<Rightarrow> string) \<Rightarrow> string \<Rightarrow> string" where
  "get_str_hash md5_hexdigest source_str = md5_hexdigest source_str"

subsection \<open>\<open>calculate_dir_hash\<close>\<close>

text \<open>The inner loop over \<open>files\<close>; a failing \<open>getmtime\<close> ends the call.\<close>

fun add_files ::
    "'p re_search \<Rightarrow> ('t \<Rightarrow> 't \<Rightarrow> 't) \<Rightarrow> 'p \<Rightarrow> 't pynum \<Rightarrow> (string \<times> (exc + 't)) list
     \<Rightarrow> exc + 't pynum" where
  "add_files search fadd file_filter mtime_sum [] = Inr mtime_sum"
| "add_files search fadd file_filter mtime_sum ((filename, mt) # rest) =
     (if search file_filter filename [IGNORECASE]
      then (case mt of
              Inl err \<Rightarrow> Inl err
            | Inr modtime \<Rightarrow>
                add_files search fadd file_filter (py_add fadd mtime_sum modtime) rest)
      else add_files search fadd file_filter mtime_sum rest)"

text \<open>The outer loop over the triples of the walk.\<close>

fun walk_loop ::
    "'p re_search \<Rightarrow> ('t \<Rightarrow> 't \<Rightarrow> 't) \<Rightarrow> 'p \<Rightarrow> 'p \<Rightarrow> 't pynum \<Rightarrow> 't visit list
     \<Rightarrow> exc + 't pynum" where
  "walk_loop search fadd dir_filter file_filter mtime_sum [] = Inr mtime_sum"
| "walk_loop search fadd dir_filter file_filter mtime_sum (v # rest) =
     (if search dir_filter (root v) [IGNORECASE]
      then (case root_mtime v of
              Inl err \<Rightarrow> Inl err
            | Inr m \<Rightarrow>
                (case add_files search fadd file_filter (py_add fadd mtime_sum m) (files v) of
                   Inl err \<Rightarrow> Inl err
                 | Inr s \<Rightarrow> walk_loop search fadd dir_filter file_filter s rest))
      else walk_loop search fadd dir_filter file_filter mtime_sum rest)"

definition calculate_dir_hash ::
    "'p re_search \<Rightarrow> ('t \<Rightarrow> 't \<Rightarrow> 't) \<Rightarrow> ('t \<Rightarrow> string) \<Rightarrow> (string \<Rightarrow> string)
     \<Rightarrow> 't node \<Rightarrow> 'p \<Rightarrow> 'p \<Rightarrow> exc + string" where
  "calculate_dir_hash search fadd fstr md5_hexdigest dir_path dir_filter file_filter =
     (case walk_loop search fadd dir_filter file_filter IntZero (os_walk dir_path) of
        Inl err \<Rightarrow> Inl err
      | Inr mtime_sum \<Rightarrow> Inr (get_str_hash md5_hexdigest (py_str fstr mtime_sum)))"

subsection \<open>The fingerprint in the words of the spec\<close>

text \<open>
  The timestamps that enter the sum, in the order of a top-down walk: every
  directory that is listed contributes, when its base name matches
  \<open>dir_filter\<close>, its own timestamp and then the timestamps of the files
  directly inside it whose names match \<open>file_filter\<close>; whether or not it
  matches, the walk goes on into each of its subdirectories.
\<close>

fun fingerprint_terms :: "'p re_search \<Rightarrow> 'p \<Rightarrow> 'p \<Rightarrow> 't node \<Rightarrow> (exc + 't) list" where
  "fingerprint_terms search dir_filter file_filter (File n m) = []"
| "fingerprint_terms search dir_filter file_filter (BadDir n l m e) = []"
| "fingerprint_terms search dir_filter file_filter (Dir n l m entries) =
     (if search dir_filter n [IGNORECASE]
      then m # map node_mtime
                 (filter (\<lambda>f. \<not> isdir f \<and> search file_filter (node_name f) [IGNORECASE]) entries)
      else [])
     @ concat (map (fingerprint_terms search dir_filter file_filter)
                   (filter (\<lambda>d. isdir d \<and> \<not> islink d) entries))"

text \<open>
  The tree without the directories that cannot be listed, at every depth;
  \<open>listable\<close> says that a tree holds none.
\<close>

fun is_BadDir :: "'t node \<Rightarrow> bool" where
  "is_BadDir (BadDir n l m e) = True"
| "is_BadDir d = False"

fun prune :: "'t node \<Rightarrow> 't node" where
  "prune (File n m) = File n m"
| "prune (BadDir n l m e) = BadDir n l m e"
| "prune (Dir n l m entries) = Dir n l m (map prune (filter (\<lambda>d. \<not> is_BadDir d) entries))"

fun listable :: "'t node \<Rightarrow> bool" where
  "listable (File n m) = True"
| "listable (BadDir n l m e) = False"
| "listable (Dir n l m entries) = (\<forall>d \<in> set entries. listable d)"

text \<open>Adding the timestamps up from left to right; the first failure ends it.\<close>

fun add_all :: "('t \<Rightarrow> 't \<Rightarrow> 't) \<Rightarrow> 't pynum \<Rightarrow> (exc + 't) list \<Rightarrow> exc + 't pynum" where
  "add_all fadd s [] = Inr s"
| "add_all fadd s (Inl err # rest) = Inl err"
| "add_all fadd s (Inr m # rest) = add_all fadd (py_add fadd s m) rest"

definition digest_of ::
    "('t \<Rightarrow> string) \<Rightarrow> (string \<Rightarrow> string) \<Rightarrow> exc + 't pynum \<Rightarrow> exc + string" where
  "digest_of fstr md5_hexdigest r =
     (case r of Inl err \<Rightarrow> Inl err | Inr s \<Rightarrow> Inr (get_str_hash md5_hexdigest (py_str fstr s)))"

text \<open>The timestamps a list of walk triples contributes, triple by triple.\<close>

definition visit_terms :: "'p re_search \<Rightarrow> 'p \<Rightarrow> 'p \<Rightarrow> 't visit \<Rightarrow> (exc + 't) list" where
  "visit_terms search dir_filter file_filter v =
     (if search dir_filter (root v) [IGNORECASE]
      then root_mtime v
           # map snd (filter (\<lambda>f. search file_filter (fst f) [IGNORECASE]) (files v))
      else [])"

subsection \<open>Concrete library instances\<close>

text \<open>
  A regular-expression engine for patterns without metacharacters: the search
  succeeds when the pattern occurs somewhere in the string, letters compared
  without case under \<open>IGNORECASE\<close>.
\<close>

definition ascii_lower :: "char \<Rightarrow> char" where
  "ascii_lower c =
     (case map_of (zip ''ABCDEFGHIJKLMNOPQRSTUVWXYZ'' ''abcdefghijklmnopqrstuvwxyz'') c of
        Some l \<Rightarrow> l
      | None \<Rightarrow> c)"

fun starts_with :: "string \<Rightarrow> string \<Rightarrow> bool" where
  "starts_with [] s = True"
| "starts_with (p # ps) [] = False"
| "starts_with (p # ps) (c # cs) = (p = c \<and> starts_with ps cs)"

fun occurs_in :: "string \<Rightarrow> string \<Rightarrow> bool" where
  "occurs_in p [] = (p = [])"
| "occurs_in p (c # cs) = (starts_with p (c # cs) \<or> occurs_in p cs)"

definition literal_search :: "string re_search" where
  "literal_search pat s flags =
     (if IGNORECASE \<in> set flags
      then occurs_in (map ascii_lower pat) (map ascii_lower s)
      else occurs_in pat s)"

text \<open>
  Double-precision floats from \<open>1\<close> upwards (and zero), each written as the
  natural number of its multiples of \<open>2\<^sup>-\<^sup>5\<^sup>2\<close>: the timestamp
  \<open>1700000000.0\<close> is \<open>1700000000 * 2 ^ 52\<close>. \<open>double_add\<close> is IEEE 754
  addition: the exact sum rounded to 53 significant bits, ties to even.
\<close>

fun bit_length :: "nat \<Rightarrow> nat" where
  "bit_length n = (if n = 0 then 0 else Suc (bit_length (n div 2)))"

declare bit_length.simps [simp del]

definition round53 :: "nat \<Rightarrow> nat" where
  "round53 n =
     (if bit_length n \<le> 53 then n
      else let s = bit_length n - 53; q = n div 2 ^ s; r = n mod 2 ^ s; h = 2 ^ (s - 1)
           in if r < h \<or> (r = h \<and> even q) then q * 2 ^ s else (q + 1) * 2 ^ s)"

definition double_add :: "nat \<Rightarrow> nat \<Rightarrow> nat" where
  "double_add a b = round53 (a + b)"




section \<open>Properties of the extractor\<close>

lemma scan_targets_no_match:
  "Some x \<notin> set (map expr_id ts) \<Longrightarrow> scan_targets child x ts = None"
  by (induction ts) auto

lemma scan_targets_match:
  "Some x \<in> set (map expr_id ts) \<Longrightarrow>
   scan_targets child x ts =
     Some (case stmt_value child of Inl err \<Rightarrow> Inl err | Inr v \<Rightarrow> literal_eval v)"
  by (induction ts) auto

lemma scan_children_skip:
  "\<not> names_target s x \<Longrightarrow> scan_children x (s # rest) = scan_children x rest"
  by (auto simp: names_target_def scan_targets_no_match split: option.splits)

lemma scan_children_prefix:
  "\<forall>s \<in> set pre. \<not> names_target s x \<Longrightarrow>
   scan_children x (pre @ rest) = scan_children x rest"
proof (induction pre)
  case Nil
  then show ?case by simp
next
  case (Cons s pre)
  then have "scan_children x ((s # pre) @ rest) = scan_children x (pre @ rest)"
    using scan_children_skip [of s x "pre @ rest"] by simp
  with Cons show ?case by simp
qed

lemma scan_children_absent:
  "\<forall>s \<in> set body. \<not> names_target s x \<Longrightarrow> scan_children x body = None"
  using scan_children_prefix [of body x "[]"] by simp

lemma scan_children_first_assign:
  assumes "\<forall>s \<in> set pre. \<not> names_target s x" and "Some x \<in> set (map expr_id ts)"
  shows "scan_children x (pre @ Assign ts v # post) = Some (literal_eval v)"
proof -
  have "scan_children x (pre @ Assign ts v # post) = scan_children x (Assign ts v # post)"
    using assms(1) by (rule scan_children_prefix)
  also have "\<dots> = Some (literal_eval v)"
    using scan_targets_match [OF assms(2), of "Assign ts v"] by simp
  finally show ?thesis .
qed

lemma scan_children_first_delete:
  assumes "\<forall>s \<in> set pre. \<not> names_target s x" and "Some x \<in> set (map expr_id ts)"
  shows "scan_children x (pre @ Delete ts # post) =
         Some (Inl (AttributeError ''object has no attribute value''))"
proof -
  have "scan_children x (pre @ Delete ts # post) = scan_children x (Delete ts # post)"
    using assms(1) by (rule scan_children_prefix)
  also have "\<dots> = Some (Inl (AttributeError ''object has no attribute value''))"
    using scan_targets_match [OF assms(2), of "Delete ts"] by simp
  finally show ?thesis .
qed

subsection \<open>Construction\<close>

text \<open>
  C7. When the file opens and reads but its text does not parse, construction
  raises \<open>PyRevitException\<close> whose message holds the file address and the text
  of the syntax error; the failure is atomic: construction yields no instance,
  hence no syntax tree.
\<close>

theorem init_parse_failure:
  assumes "open_file io file_address = Inr f"
    and "read_file io f = Inr text"
    and "ast_parse io text = Inl err"
  shows "ScriptFileParser_init io file_address =
           Inl (PyRevitException
             (''Error parsing script file: '' @ file_address @ '' | '' @ exc_str err))
         \<and> (\<forall>self. ScriptFileParser_init io file_address \<noteq> Inr self)"
  using assms by (simp add: ScriptFileParser_init_def init_error_def)

theorem init_parse_failure_witness:
  "ScriptFileParser_init
     \<lparr>open_file = (\<lambda>p. Inr p), read_file = (\<lambda>h. Inr ''x = (1''),
      ast_parse = (\<lambda>t. if t = ''x = (1'' then Inl (SyntaxError ''unexpected EOF'') else Inr [])\<rparr>
     ''a.py''
   = Inl (PyRevitException ''Error parsing script file: a.py | unexpected EOF'')"
  using init_parse_failure
    [of "\<lparr>open_file = (\<lambda>p. Inr p), read_file = (\<lambda>h. Inr ''x = (1''),
           ast_parse = (\<lambda>t. if t = ''x = (1'' then Inl (SyntaxError ''unexpected EOF'')
                              else Inr [])\<rparr>"
        "''a.py''" "''a.py''" "''x = (1''" "SyntaxError ''unexpected EOF''"]
  by simp

text \<open>
  C10. Whichever step of construction raises (opening the path, reading the
  file, or parsing the text), the exception is caught and the same
  \<open>PyRevitException\<close> is raised, with the same message layout: the type of the
  exception does not tell a missing file from a syntax error.
\<close>

theorem init_wraps_every_failure:
  assumes "open_file io file_address = Inl err
     \<or> (\<exists>f. open_file io file_address = Inr f \<and> read_file io f = Inl err)
     \<or> (\<exists>f text. open_file io file_address = Inr f \<and> read_file io f = Inr text
           \<and> ast_parse io text = Inl err)"
  shows "\<exists>e. ScriptFileParser_init io file_address = Inl e \<and> is_PyRevitException e
           \<and> exc_str e = ''Error parsing script file: '' @ file_address @ '' | '' @ exc_str err"
  using assms by (auto simp: ScriptFileParser_init_def init_error_def)

theorem init_wraps_every_failure_witness:
  "\<exists>e. ScriptFileParser_init
          \<lparr>open_file = (\<lambda>p. Inl (IOError ''No such file'') :: exc + string),
           read_file = (\<lambda>h. Inr h), ast_parse = (\<lambda>t. Inr [])\<rparr> ''gone.py'' = Inl e
        \<and> is_PyRevitException e
        \<and> exc_str e = ''Error parsing script file: gone.py | No such file''"
  using init_wraps_every_failure
    [of "\<lparr>open_file = (\<lambda>p. Inl (IOError ''No such file'') :: exc + string),
           read_file = (\<lambda>h. Inr h), ast_parse = (\<lambda>t. Inr [])\<rparr>"
        "''gone.py''" "IOError ''No such file''"]
  by simp

subsection \<open>Extraction\<close>

text \<open>
  C1, as the spec words it, would have the last assignment win. The loop
  returns at the first match: for \<open>x = 1\<close> followed by \<open>x = 2\<close> the result
  is 1, not 2.
\<close>

theorem extract_param_last_wins_counterexample:
  "extract_param
     \<lparr>file_addr = ''s.py'',
      ast_tree = [Assign [Name ''x''] (Num (IntLit 1)), Assign [Name ''x''] (Num (IntLit 2))]\<rparr>
     ''x'' = Inr (VNum (IntLit 1))
   \<and> extract_param
     \<lparr>file_addr = ''s.py'',
      ast_tree = [Assign [Name ''x''] (Num (IntLit 1)), Assign [Name ''x''] (Num (IntLit 2))]\<rparr>
     ''x'' \<noteq> Inr (VNum (IntLit 2))"
  by (simp add: extract_param_def)

text \<open>
  C1, amended. The first top-level assignment to the name, in document order,
  wins: when no earlier top-level statement names \<open>x\<close> among its targets and
  the right-hand side of that assignment is a literal, \<open>extract_param\<close> returns
  its value, whatever follows.
\<close>

theorem extract_param_first_wins:
  assumes "\<forall>s \<in> set pre. \<not> names_target s x"
    and "Name x \<in> set ts"
    and "literal_eval v = Inr r"
  shows "extract_param \<lparr>file_addr = a, ast_tree = pre @ Assign ts v # post\<rparr> x = Inr r"
proof -
  have "Some x \<in> set (map expr_id ts)"
    using assms(2) by force
  with assms(1) have "scan_children x (pre @ Assign ts v # post) = Some (literal_eval v)"
    by (rule scan_children_first_assign)
  with assms(3) show ?thesis
    by (simp add: extract_param_def)
qed

theorem extract_param_first_wins_witness:
  "extract_param
     \<lparr>file_addr = ''s.py'',
      ast_tree = [Pass] @ Assign [Name ''x''] (Num (IntLit 1))
                   # [Assign [Name ''x''] (Num (IntLit 2))]\<rparr>
     ''x'' = Inr (VNum (IntLit 1))"
  using extract_param_first_wins
    [of "[Pass]" "''x''" "[Name ''x'']" "Num (IntLit 1)" "VNum (IntLit 1)" "''s.py''"
        "[Assign [Name ''x''] (Num (IntLit 2))]"]
  by (simp add: names_target_def)

text \<open>
  Only the top-level statements are examined. When no top-level statement
  names \<open>x\<close> among its targets (no top-level \<open>x = ...\<close> and no top-level
  \<open>del x\<close>), the result is \<open>None\<close>, whatever the bodies of the functions,
  classes and control-flow statements of the script assign. And for every
  script and every name, a function, class or control-flow statement at top
  level leaves the result as it is without that statement, whatever its body.
\<close>

lemma extract_param_top_level_only:
  assumes "\<forall>s \<in> set body. \<not> names_target s x"
    and "compound c"
  shows "extract_param \<lparr>file_addr = a, ast_tree = body\<rparr> x = Inr VNone
       \<and> extract_param \<lparr>file_addr = a, ast_tree = pre @ c # post\<rparr> y =
         extract_param \<lparr>file_addr = a, ast_tree = pre @ post\<rparr> y"
proof
  show "extract_param \<lparr>file_addr = a, ast_tree = body\<rparr> x = Inr VNone"
    using scan_children_absent [OF assms(1)] by (simp add: extract_param_def)
next
  have "stmt_targets c = None"
    using assms(2) by (cases c) simp_all
  then have "scan_children y (c # post) = scan_children y post"
    by simp
  then have "scan_children y (pre @ c # post) = scan_children y (pre @ post)"
    by (induction pre) (simp_all split: option.splits)
  then show "extract_param \<lparr>file_addr = a, ast_tree = pre @ c # post\<rparr> y =
         extract_param \<lparr>file_addr = a, ast_tree = pre @ post\<rparr> y"
    by (simp add: extract_param_def split: option.splits sum.splits)
qed

lemma extract_param_top_level_only_example:
  "extract_param
     \<lparr>file_addr = ''s.py'',
      ast_tree = [FunctionDef ''f'' [Assign [Name ''x''] (Num (IntLit 1))],
                  If (Name ''c'') [Assign [Name ''x''] (Num (IntLit 2))] []]\<rparr>
     ''x'' = Inr VNone
   \<and> extract_param
     \<lparr>file_addr = ''s.py'',
      ast_tree = [Pass] @ FunctionDef ''f'' [Assign [Name ''x''] (Num (IntLit 1))]
                   # [Assign [Name ''x''] (Num (IntLit 2))]\<rparr>
     ''x'' = Inr (VNum (IntLit 2))"
  using extract_param_top_level_only
    [of "[FunctionDef ''f'' [Assign [Name ''x''] (Num (IntLit 1))],
          If (Name ''c'') [Assign [Name ''x''] (Num (IntLit 2))] []]" "''x''"
        "FunctionDef ''f'' [Assign [Name ''x''] (Num (IntLit 1))]" "''s.py''"
        "[Pass]" "[Assign [Name ''x''] (Num (IntLit 2))]" "''x''"]
  by (simp add: names_target_def extract_param_def)

text \<open>
  C5. A name assigned only inside a nested function body should give "not
  found". The nested body is indeed never read, but the claim fails on a
  script that also deletes the name at top level: for \<open>def f(): x = 1\<close>
  followed by \<open>del x\<close>, the \<open>Delete\<close> node passes both \<open>hasattr\<close> tests,
  \<open>child.value\<close> raises, and the query ends in \<open>PyRevitException\<close> instead
  of \<open>None\<close>.
\<close>

theorem extract_param_nested_then_del_fails:
  "extract_param
     \<lparr>file_addr = ''s.py'',
      ast_tree = [FunctionDef ''f'' [Assign [Name ''x''] (Num (IntLit 1))],
                  Delete [Name ''x'']]\<rparr>
     ''x'' =
   Inl (PyRevitException
     ''Error parsing parameter: x in script file for : s.py | object has no attribute value'')"
  by (simp add: extract_param_def param_error_def)

text \<open>
  The first half of C6 holds: when the first top-level assignment to the name
  has a right-hand side that is no literal, \<open>extract_param\<close> raises
  \<open>PyRevitException\<close>, and the message holds the name, the file address and
  the text of the cause.
\<close>

lemma extract_param_not_literal:
  assumes "\<forall>s \<in> set pre. \<not> names_target s x"
    and "Name x \<in> set ts"
    and "literal_eval v = Inl err"
  shows "extract_param \<lparr>file_addr = a, ast_tree = pre @ Assign ts v # post\<rparr> x =
         Inl (PyRevitException (''Error parsing parameter: '' @ x @
                '' in script file for : '' @ a @ '' | '' @ exc_str err))"
proof -
  have "Some x \<in> set (map expr_id ts)"
    using assms(2) by force
  with assms(1) have "scan_children x (pre @ Assign ts v # post) = Some (literal_eval v)"
    by (rule scan_children_first_assign)
  with assms(3) show ?thesis
    by (simp add: extract_param_def param_error_def)
qed

lemma extract_param_call_fails:
  "extract_param \<lparr>file_addr = ''s.py'',
      ast_tree = [Assign [Name ''x''] (Call (Name ''some_function'') [])]\<rparr> ''x'' =
   Inl (PyRevitException
     ''Error parsing parameter: x in script file for : s.py | malformed string'')"
  by (simp add: extract_param_def param_error_def)

text \<open>
  C6, second half: a script with no assignment to \<open>x\<close> at all should give
  "not found". A \<open>Delete\<close> node also has the field \<open>targets\<close>, so a top-level
  \<open>del x\<close> passes both \<open>hasattr\<close> tests; reading \<open>child.value\<close> then raises
  \<open>AttributeError\<close>, which the handler turns into \<open>PyRevitException\<close>: the
  query fails although no assignment to \<open>x\<close> exists.
\<close>

theorem extract_param_del_fails:
  "extract_param \<lparr>file_addr = ''s.py'', ast_tree = [Delete [Name ''x'']]\<rparr> ''x'' =
   Inl (PyRevitException
     ''Error parsing parameter: x in script file for : s.py | object has no attribute value'')"
  by (simp add: extract_param_def param_error_def)

text \<open>
  \<open>extract_param\<close> does not tell an absent variable from one assigned
  \<open>None\<close>, as long as no top-level \<open>del\<close> names it: a script whose only
  top-level statement naming \<open>x\<close> is the assignment \<open>x = None\<close>, and the
  same script without that assignment, both give \<open>None\<close>.
\<close>

lemma extract_param_None_ambiguous:
  assumes "\<forall>s \<in> set (pre @ post). \<not> names_target s x"
  shows "extract_param
           \<lparr>file_addr = a, ast_tree = pre @ Assign [Name x] (Name ''None'') # post\<rparr> x
         = Inr VNone
       \<and> extract_param \<lparr>file_addr = a, ast_tree = pre @ post\<rparr> x = Inr VNone"
proof
  have pre: "\<forall>s \<in> set pre. \<not> names_target s x"
    using assms by simp
  have "scan_children x (pre @ Assign [Name x] (Name ''None'') # post) =
        Some (literal_eval (Name ''None''))"
    using pre by (rule scan_children_first_assign) simp
  then show "extract_param
      \<lparr>file_addr = a, ast_tree = pre @ Assign [Name x] (Name ''None'') # post\<rparr> x = Inr VNone"
    by (simp add: extract_param_def)
next
  show "extract_param \<lparr>file_addr = a, ast_tree = pre @ post\<rparr> x = Inr VNone"
    using scan_children_absent [OF assms] by (simp add: extract_param_def)
qed

lemma extract_param_None_ambiguous_example:
  "extract_param
     \<lparr>file_addr = ''s.py'',
      ast_tree = [Assign [Name ''y''] (Num (IntLit 3))]
                 @ Assign [Name ''x''] (Name ''None'') # [ExprStmt (Str ''doc'')]\<rparr> ''x''
   = Inr VNone
   \<and> extract_param
     \<lparr>file_addr = ''s.py'',
      ast_tree = [Assign [Name ''y''] (Num (IntLit 3))] @ [ExprStmt (Str ''doc'')]\<rparr> ''x''
   = Inr VNone"
  using extract_param_None_ambiguous
    [of "[Assign [Name ''y''] (Num (IntLit 3))]" "[ExprStmt (Str ''doc'')]" "''x''" "''s.py''"]
  by (simp add: names_target_def)

text \<open>
  C9. A script whose only top-level assignment to \<open>x\<close> is \<open>x = None\<close> and a
  script with no top-level assignment to \<open>x\<close> should give the same result.
  They do not when the second one deletes the name: \<open>x = None\<close> followed by
  \<open>del x\<close> gives \<open>None\<close>, while a docstring followed by \<open>del x\<close>, a script
  with no assignment to \<open>x\<close>, ends in \<open>PyRevitException\<close>.
\<close>

theorem extract_param_None_told_apart:
  "extract_param
     \<lparr>file_addr = ''s.py'',
      ast_tree = [Assign [Name ''x''] (Name ''None''), Delete [Name ''x'']]\<rparr>
     ''x'' = Inr VNone
   \<and> extract_param
     \<lparr>file_addr = ''s.py'',
      ast_tree = [ExprStmt (Str ''doc''), Delete [Name ''x'']]\<rparr>
     ''x'' =
   Inl (PyRevitException
     ''Error parsing parameter: x in script file for : s.py | object has no attribute value'')"
  by (simp add: extract_param_def param_error_def)

section \<open>Properties of the fingerprinter\<close>

subsection \<open>The loops add up the spec's timestamps\<close>

lemma add_all_append:
  "add_all fadd s (xs @ ys) =
     (case add_all fadd s xs of Inl err \<Rightarrow> Inl err | Inr s' \<Rightarrow> add_all fadd s' ys)"
proof (induction xs arbitrary: s)
  case Nil
  then show ?case by simp
next
  case (Cons x xs)
  then show ?case by (cases x) simp_all
qed

lemma add_files_terms:
  "add_files search fadd file_filter s fs =
     add_all fadd s (map snd (filter (\<lambda>f. search file_filter (fst f) [IGNORECASE]) fs))"
proof (induction fs arbitrary: s)
  case Nil
  then show ?case by simp
next
  case (Cons f fs)
  obtain filename mt where f: "f = (filename, mt)" by (cases f)
  show ?case
    unfolding f using Cons.IH by (cases mt) simp_all
qed

lemma walk_loop_terms:
  "walk_loop search fadd dir_filter file_filter s vs =
     add_all fadd s (concat (map (visit_terms search dir_filter file_filter) vs))"
proof (induction vs arbitrary: s)
  case Nil
  then show ?case by simp
next
  case (Cons v vs)
  show ?case
  proof (cases "search dir_filter (root v) [IGNORECASE]")
    case False
    then show ?thesis using Cons.IH by (simp add: visit_terms_def)
  next
    case True
    show ?thesis
    proof (cases "root_mtime v")
      case (Inl err)
      with True show ?thesis by (simp add: visit_terms_def)
    next
      case (Inr m)
      with True show ?thesis
        using Cons.IH
        by (simp add: visit_terms_def add_files_terms add_all_append split: sum.splits)
    qed
  qed
qed

lemma concat_map_concat:
  "concat (map f (concat xss)) = concat (map (\<lambda>xs. concat (map f xs)) xss)"
  by (induction xss) simp_all

lemma walk_terms_tree:
  "concat (map (visit_terms search dir_filter file_filter) (os_walk t)) =
     fingerprint_terms search dir_filter file_filter t"
proof (induction t rule: os_walk.induct)
  case (1 n m)
  then show ?case by simp
next
  case (2 n l m e)
  then show ?case by simp
next
  case (3 n l m entries)
  have sub: "concat (map (\<lambda>d. concat (map (visit_terms search dir_filter file_filter) (os_walk d)))
                 (filter (\<lambda>d. isdir d \<and> \<not> islink d) entries)) =
             concat (map (fingerprint_terms search dir_filter file_filter)
                 (filter (\<lambda>d. isdir d \<and> \<not> islink d) entries))"
    using 3 by (intro arg_cong [where f = concat] map_cong) auto
  have top: "visit_terms search dir_filter file_filter
        \<lparr>root = n, root_mtime = m, dirs = map node_name (filter isdir entries),
         files = map (\<lambda>f. (node_name f, node_mtime f)) (filter (\<lambda>f. \<not> isdir f) entries)\<rparr> =
      (if search dir_filter n [IGNORECASE]
       then m # map node_mtime
                 (filter (\<lambda>f. \<not> isdir f \<and> search file_filter (node_name f) [IGNORECASE]) entries)
       else [])"
    by (simp add: visit_terms_def filter_map o_def)
  show ?case
    by (simp only: os_walk.simps fingerprint_terms.simps list.map concat.simps
          concat_map_concat map_map o_def sub top)
qed

lemma walk_loop_fingerprint:
  "walk_loop search fadd dir_filter file_filter s (os_walk t) =
     add_all fadd s (fingerprint_terms search dir_filter file_filter t)"
  by (simp add: walk_loop_terms walk_terms_tree)

lemma calculate_dir_hash_fingerprint:
  "calculate_dir_hash search fadd fstr md5_hexdigest t dir_filter file_filter =
     digest_of fstr md5_hexdigest
       (add_all fadd IntZero (fingerprint_terms search dir_filter file_filter t))"
  by (simp add: calculate_dir_hash_def digest_of_def walk_loop_fingerprint)

text \<open>
  C4. The walk does not depend on the patterns: \<open>os_walk\<close> takes none, and
  goes into every subdirectory that can be listed and is no symbolic link.
  What the loops add up is exactly \<open>fingerprint_terms\<close>: the timestamp of a
  directory only when its base name matches \<open>dir_filter\<close> under
  \<open>IGNORECASE\<close>, and the timestamp of a file only when it lies directly in
  such a directory and its name matches \<open>file_filter\<close> under \<open>IGNORECASE\<close>.
\<close>

theorem calculate_dir_hash_refines_spec:
  "walk_loop search fadd dir_filter file_filter IntZero (os_walk t) =
     add_all fadd IntZero (fingerprint_terms search dir_filter file_filter t)
   \<and> calculate_dir_hash search fadd fstr md5_hexdigest t dir_filter file_filter =
     digest_of fstr md5_hexdigest
       (add_all fadd IntZero (fingerprint_terms search dir_filter file_filter t))"
  by (simp add: calculate_dir_hash_fingerprint walk_loop_fingerprint)

theorem calculate_dir_hash_refines_spec_witness:
  "walk_loop literal_search (+) ''ext'' ''.py'' IntZero
     (os_walk (Dir ''tools'' False (Inr (10::nat))
        [File ''x.py'' (Inr 1),
         Dir ''My.Extension'' False (Inr 20) [File ''a.PY'' (Inr 3), File ''b.txt'' (Inr 4)],
         Dir ''misc'' False (Inr 30) [Dir ''ext2'' False (Inr 40) [File ''c.py'' (Inr 5)]]]))
   = Inr (FloatVal 68)"
  using calculate_dir_hash_refines_spec
    [of literal_search "(+)" "''ext''" "''.py''"
        "Dir ''tools'' False (Inr (10::nat))
          [File ''x.py'' (Inr 1),
           Dir ''My.Extension'' False (Inr 20) [File ''a.PY'' (Inr 3), File ''b.txt'' (Inr 4)],
           Dir ''misc'' False (Inr 30) [Dir ''ext2'' False (Inr 40) [File ''c.py'' (Inr 5)]]]"]
  by (simp add: literal_search_def ascii_lower_def)

lemma walk_loop_no_match:
  "\<forall>v \<in> set vs. \<not> search dir_filter (root v) [IGNORECASE] \<Longrightarrow>
   walk_loop search fadd dir_filter file_filter s vs = Inr s"
  by (induction vs) simp_all

text \<open>
  C8. When the base name of no visited directory matches \<open>dir_filter\<close>, the
  sum stays the integer \<open>0\<close> and the result is the digest of the string
  \<open>0\<close>; no \<open>getmtime\<close> is called, so nothing can fail.
\<close>

theorem calculate_dir_hash_no_match:
  assumes "\<forall>v \<in> set (os_walk t). \<not> search dir_filter (root v) [IGNORECASE]"
  shows "walk_loop search fadd dir_filter file_filter IntZero (os_walk t) = Inr IntZero
       \<and> calculate_dir_hash search fadd fstr md5_hexdigest t dir_filter file_filter =
           Inr (get_str_hash md5_hexdigest ''0'')"
  using assms walk_loop_no_match [of "os_walk t" search dir_filter fadd file_filter IntZero]
  by (simp add: calculate_dir_hash_def)

theorem calculate_dir_hash_no_match_witness:
  "calculate_dir_hash literal_search (+) (\<lambda>x::nat. ''float'') (\<lambda>s. ''md5 of '' @ s)
     (Dir ''tools'' False (Inr 10) [File ''x.py'' (Inr 1), Dir ''misc'' False (Inr 30) []])
     ''ext'' ''.py''
   = Inr ''md5 of 0''"
  using calculate_dir_hash_no_match
    [of "Dir ''tools'' False (Inr 10) [File ''x.py'' (Inr 1), Dir ''misc'' False (Inr 30) []]"
        literal_search "''ext''" "(+)" "''.py''" "\<lambda>x::nat. ''float''" "\<lambda>s. ''md5 of '' @ s"]
  by (simp add: literal_search_def ascii_lower_def get_str_hash_def)

subsection \<open>Failures\<close>

lemma add_all_first_failure:
  "\<forall>x \<in> set pre. \<exists>m. x = Inr m \<Longrightarrow> add_all fadd s (pre @ Inl err # post) = Inl err"
proof (induction pre arbitrary: s)
  case Nil
  then show ?case by simp
next
  case (Cons x pre)
  then obtain m where "x = Inr m" by auto
  with Cons show ?case by simp
qed

lemma fingerprint_terms_drop_BadDir:
  "fingerprint_terms search dir_filter file_filter (Dir n l m (pre @ BadDir bn bl bm be # post)) =
   fingerprint_terms search dir_filter file_filter (Dir n l m (pre @ post))"
  by simp

lemma prune_fields [simp]:
  "isdir (prune d) = isdir d" "islink (prune d) = islink d"
  "node_name (prune d) = node_name d" "node_mtime (prune d) = node_mtime d"
  by (cases d; simp)+

lemma concat_map_filter_empty:
  "(\<And>x. x \<in> set xs \<Longrightarrow> \<not> Q x \<Longrightarrow> f x = []) \<Longrightarrow>
   concat (map f (filter Q xs)) = concat (map f xs)"
  by (induction xs) auto

lemma is_BadDir_isdir: "is_BadDir d \<Longrightarrow> isdir d"
  by (cases d) simp_all

lemma fingerprint_terms_BadDir:
  "is_BadDir d \<Longrightarrow> fingerprint_terms search dir_filter file_filter d = []"
  by (cases d) simp_all

lemma fingerprint_terms_prune:
  "fingerprint_terms search dir_filter file_filter (prune t) =
   fingerprint_terms search dir_filter file_filter t"
proof (induction t rule: prune.induct)
  case (1 n m)
  then show ?case by simp
next
  case (2 n l m e)
  then show ?case by simp
next
  case (3 n l m entries)
  let ?good = "filter (\<lambda>d. \<not> is_BadDir d) entries"
  have files: "filter (\<lambda>f. \<not> isdir f \<and> search file_filter (node_name f) [IGNORECASE]) ?good =
               filter (\<lambda>f. \<not> isdir f \<and> search file_filter (node_name f) [IGNORECASE]) entries"
    by (induction entries) (auto dest: is_BadDir_isdir)
  have "concat (map (fingerprint_terms search dir_filter file_filter)
          (filter (\<lambda>d. isdir d \<and> \<not> islink d) (map prune ?good))) =
        concat (map (fingerprint_terms search dir_filter file_filter)
          (filter (\<lambda>d. isdir d \<and> \<not> islink d) ?good))"
    using 3 by (induction entries) auto
  also have "\<dots> = concat (map (fingerprint_terms search dir_filter file_filter)
          (filter (\<lambda>d. \<not> is_BadDir d) (filter (\<lambda>d. isdir d \<and> \<not> islink d) entries)))"
    by (simp add: conj_commute)
  also have "\<dots> = concat (map (fingerprint_terms search dir_filter file_filter)
          (filter (\<lambda>d. isdir d \<and> \<not> islink d) entries))"
    by (rule concat_map_filter_empty) (simp add: fingerprint_terms_BadDir)
  finally have subs: "concat (map (fingerprint_terms search dir_filter file_filter)
          (filter (\<lambda>d. isdir d \<and> \<not> islink d) (map prune ?good))) =
        concat (map (fingerprint_terms search dir_filter file_filter)
          (filter (\<lambda>d. isdir d \<and> \<not> islink d) entries))" .
  have "map node_mtime (filter (\<lambda>f. \<not> isdir f \<and> search file_filter (node_name f) [IGNORECASE])
            (map prune ?good)) =
        map node_mtime (filter (\<lambda>f. \<not> isdir f \<and> search file_filter (node_name f) [IGNORECASE]) ?good)"
    by (simp add: filter_map o_def)
  with files have fl: "map node_mtime (filter (\<lambda>f. \<not> isdir f \<and> search file_filter (node_name f) [IGNORECASE])
            (map prune ?good)) =
        map node_mtime (filter (\<lambda>f. \<not> isdir f \<and> search file_filter (node_name f) [IGNORECASE]) entries)"
    by simp
  show ?case
    by (simp only: prune.simps fingerprint_terms.simps subs fl)
qed

lemma listable_prune: "\<not> is_BadDir t \<Longrightarrow> listable (prune t)"
  by (induction t rule: prune.induct) auto

lemma add_all_failure_is_term:
  "add_all fadd s ts = Inl err \<Longrightarrow> Inl err \<in> set ts"
proof (induction ts arbitrary: s)
  case Nil
  then show ?case by simp
next
  case (Cons x ts)
  then show ?case by (cases x) auto
qed

text \<open>
  C2, as the spec words it, would have every I/O error end the call. A
  directory that cannot be listed does not: \<open>os.walk\<close> swallows the error of
  \<open>listdir\<close> and skips the directory, and a digest of the rest is returned.
\<close>

theorem calculate_dir_hash_listing_error_counterexample:
  "\<forall>fstr md5_hexdigest.
     calculate_dir_hash literal_search double_add fstr md5_hexdigest
       (Dir ''ext'' False (Inr (1700000000 * 2 ^ 52))
          [BadDir ''sub.ext'' False (Inr (1700000000 * 2 ^ 52)) (OSError ''Permission denied'')])
       ''ext'' ''.py''
     = Inr (get_str_hash md5_hexdigest (fstr (1700000000 * 2 ^ 52)))"
  by (simp add: calculate_dir_hash_def literal_search_def ascii_lower_def)

text \<open>
  C2, amended. When \<open>getmtime\<close> fails on a matching directory or on a
  matching file in it, and every timestamp before it in walk order was read,
  the call ends with that very exception and returns no digest; and the call
  fails in no other way. A directory whose listing fails is invisible wherever
  it lies: the result for a tree is the result for the tree without its
  unlistable directories, and when the root itself cannot be listed the result
  is the digest of \<open>0\<close>.
\<close>

theorem calculate_dir_hash_failures:
  assumes "fingerprint_terms search dir_filter file_filter t = pre @ Inl err # post"
    and "\<forall>x \<in> set pre. \<exists>m. x = Inr m"
  shows "calculate_dir_hash search fadd fstr md5_hexdigest t dir_filter file_filter = Inl err
       \<and> calculate_dir_hash search fadd fstr md5_hexdigest (prune u) dir_filter file_filter =
         calculate_dir_hash search fadd fstr md5_hexdigest u dir_filter file_filter
       \<and> (\<not> is_BadDir u \<longrightarrow> listable (prune u))
       \<and> calculate_dir_hash search fadd fstr md5_hexdigest
           (BadDir bn bl bm be) dir_filter file_filter = Inr (get_str_hash md5_hexdigest ''0'')
       \<and> calculate_dir_hash search fadd fstr md5_hexdigest
           (Dir n l m (es @ BadDir bn bl bm be # es')) dir_filter file_filter =
         calculate_dir_hash search fadd fstr md5_hexdigest
           (Dir n l m (es @ es')) dir_filter file_filter
       \<and> (\<forall>e. calculate_dir_hash search fadd fstr md5_hexdigest u dir_filter file_filter = Inl e
             \<longrightarrow> Inl e \<in> set (fingerprint_terms search dir_filter file_filter u))"
proof (intro conjI)
  show "calculate_dir_hash search fadd fstr md5_hexdigest t dir_filter file_filter = Inl err"
    using add_all_first_failure [OF assms(2), of fadd IntZero err post] assms(1)
    by (simp add: calculate_dir_hash_fingerprint digest_of_def)
next
  show "calculate_dir_hash search fadd fstr md5_hexdigest (prune u) dir_filter file_filter =
         calculate_dir_hash search fadd fstr md5_hexdigest u dir_filter file_filter"
    by (simp only: calculate_dir_hash_fingerprint fingerprint_terms_prune)
next
  show "\<not> is_BadDir u \<longrightarrow> listable (prune u)"
    by (simp add: listable_prune)
next
  show "calculate_dir_hash search fadd fstr md5_hexdigest
           (BadDir bn bl bm be) dir_filter file_filter = Inr (get_str_hash md5_hexdigest ''0'')"
    by (simp add: calculate_dir_hash_def)
next
  show "calculate_dir_hash search fadd fstr md5_hexdigest
           (Dir n l m (es @ BadDir bn bl bm be # es')) dir_filter file_filter =
         calculate_dir_hash search fadd fstr md5_hexdigest
           (Dir n l m (es @ es')) dir_filter file_filter"
    by (simp only: calculate_dir_hash_fingerprint fingerprint_terms_drop_BadDir)
next
  show "\<forall>e. calculate_dir_hash search fadd fstr md5_hexdigest u dir_filter file_filter = Inl e
             \<longrightarrow> Inl e \<in> set (fingerprint_terms search dir_filter file_filter u)"
    by (auto simp: calculate_dir_hash_fingerprint digest_of_def
          dest: add_all_failure_is_term split: sum.splits)
qed

theorem calculate_dir_hash_failures_witness:
  "\<forall>fstr md5_hexdigest.
     calculate_dir_hash literal_search (+) fstr md5_hexdigest
       (Dir ''ext'' False (Inr (10::nat))
          [File ''a.py'' (Inl (OSError ''No such file'')), File ''b.py'' (Inr 3)])
       ''ext'' ''.py''
     = Inl (OSError ''No such file'')
   \<and> calculate_dir_hash literal_search (+) fstr md5_hexdigest
       (Dir ''top'' False (Inr (10::nat))
          [Dir ''sub.ext'' False (Inr 30)
             [BadDir ''bad.ext'' False (Inr 50) (OSError ''Permission denied''),
              File ''a.py'' (Inr 3)]])
       ''ext'' ''.py''
     = calculate_dir_hash literal_search (+) fstr md5_hexdigest
       (Dir ''top'' False (Inr (10::nat))
          [Dir ''sub.ext'' False (Inr 30) [File ''a.py'' (Inr 3)]])
       ''ext'' ''.py''
   \<and> calculate_dir_hash literal_search (+) fstr md5_hexdigest
       (Dir ''top'' False (Inr (10::nat))
          [Dir ''sub.ext'' False (Inr 30)
             [BadDir ''bad.ext'' False (Inr 50) (OSError ''Permission denied''),
              File ''a.py'' (Inr 3)]])
       ''ext'' ''.py''
     = Inr (get_str_hash md5_hexdigest (fstr 33))"
proof (intro allI)
  fix fstr :: "nat \<Rightarrow> string" and md5_hexdigest :: "string \<Rightarrow> string"
  show "calculate_dir_hash literal_search (+) fstr md5_hexdigest
       (Dir ''ext'' False (Inr (10::nat))
          [File ''a.py'' (Inl (OSError ''No such file'')), File ''b.py'' (Inr 3)])
       ''ext'' ''.py''
     = Inl (OSError ''No such file'')
   \<and> calculate_dir_hash literal_search (+) fstr md5_hexdigest
       (Dir ''top'' False (Inr (10::nat))
          [Dir ''sub.ext'' False (Inr 30)
             [BadDir ''bad.ext'' False (Inr 50) (OSError ''Permission denied''),
              File ''a.py'' (Inr 3)]])
       ''ext'' ''.py''
     = calculate_dir_hash literal_search (+) fstr md5_hexdigest
       (Dir ''top'' False (Inr (10::nat))
          [Dir ''sub.ext'' False (Inr 30) [File ''a.py'' (Inr 3)]])
       ''ext'' ''.py''
   \<and> calculate_dir_hash literal_search (+) fstr md5_hexdigest
       (Dir ''top'' False (Inr (10::nat))
          [Dir ''sub.ext'' False (Inr 30)
             [BadDir ''bad.ext'' False (Inr 50) (OSError ''Permission denied''),
              File ''a.py'' (Inr 3)]])
       ''ext'' ''.py''
     = Inr (get_str_hash md5_hexdigest (fstr 33))"
    using calculate_dir_hash_failures
      [where search = literal_search and dir_filter = "''ext''" and file_filter = "''.py''"
         and t = "Dir ''ext'' False (Inr (10::nat))
           [File ''a.py'' (Inl (OSError ''No such file'')), File ''b.py'' (Inr 3)]"
         and pre = "[Inr 10]" and err = "OSError ''No such file''" and post = "[Inr 3]"
         and fadd = "(+)" and fstr = fstr and md5_hexdigest = md5_hexdigest
         and u = "Dir ''top'' False (Inr (10::nat))
           [Dir ''sub.ext'' False (Inr 30)
              [BadDir ''bad.ext'' False (Inr 50) (OSError ''Permission denied''),
               File ''a.py'' (Inr 3)]]"]
    by (simp add: literal_search_def ascii_lower_def calculate_dir_hash_def)
qed

subsection \<open>Order of the walk\<close>






subsection \<open>Sums that do not round\<close>













end
